theory Spec2Isabelle
  imports Complex_Main
begin

section \<open>Python values and exceptions\<close>

text \<open>
  The module \<open>redash/__init__.py\<close> is Python 2 code (it imports \<open>urlparse\<close> and calls
  \<open>urllib.quote_plus\<close>). Exceptions are values: a computation that may raise
  returns \<open>py_exception + 'a\<close>, with \<open>Inl\<close> for the exception raised. The three JWT
  classes carry their message; \<open>KeyError\<close> carries the missing key.
\<close>

datatype py_exception =
    ExpiredSignatureError string
  | JWTClaimsError string
  | JWTError string
  | KeyError string
  | IndexError
  | TypeError
  | AttributeError
  | OtherException string

text \<open>
  A value as it comes out of a decoded JSON document or is handed to a library call:
  an integer (Python's unbounded \<open>int\<close>; JSON \<open>true\<close>/\<open>false\<close> are the integers
  1 and 0 there), a float, a string, or \<open>None\<close>. A float is given as the rational
  number it denotes, and its sum with an integer is that of the rationals: the rounding of
  floating-point addition is left out. Containers are outside the model.
\<close>

datatype jval = JInt int | JFloat rat | JStr string | JNull

section \<open>The standard library functions the module calls\<close>

text \<open>
  \<open>urllib.unquote\<close> of Python 2.7 on a byte string: every \<open>%\<close> followed by two
  hexadecimal digits (either case) is replaced by the byte they denote; any other
  \<open>%\<close> stays as it is.
\<close>

definition hex_value :: "char \<Rightarrow> nat option" where
  "hex_value c =
     (let n = (of_char c :: nat) in
      if 48 \<le> n \<and> n \<le> 57 then Some (n - 48)
      else if 65 \<le> n \<and> n \<le> 70 then Some (n - 55)
      else if 97 \<le> n \<and> n \<le> 102 then Some (n - 87)
      else None)"

fun unquote :: "string \<Rightarrow> string" where
  "unquote [] = []"
| "unquote [c] = [c]"
| "unquote [c, a] = c # unquote [a]"
| "unquote (c # a # b # rest) =
     (if c = CHR ''%'' then
        (case (hex_value a, hex_value b) of
           (Some x, Some y) \<Rightarrow> char_of (16 * x + y) # unquote rest
         | _ \<Rightarrow> c # unquote (a # b # rest))
      else c # unquote (a # b # rest))"

text \<open>
  \<open>urllib.quote_plus\<close> of Python 2.7 with its default \<open>safe=''\<close>: letters, digits
  and \<open>_.-\<close> are kept, a space becomes \<open>+\<close>, every other byte becomes \<open>%XX\<close> with
  upper-case hexadecimal digits. Called on \<open>None\<close> it raises \<open>TypeError\<close> (its first
  statement is the test \<open>' ' in s\<close>).
\<close>

definition always_safe :: "char \<Rightarrow> bool" where
  "always_safe c =
     (let n = (of_char c :: nat) in
      (65 \<le> n \<and> n \<le> 90) \<or> (97 \<le> n \<and> n \<le> 122) \<or> (48 \<le> n \<and> n \<le> 57)
      \<or> c = CHR ''_'' \<or> c = CHR ''.'' \<or> c = CHR ''-'')"

definition hex_digit :: "nat \<Rightarrow> char" where
  "hex_digit d = (if d < 10 then char_of (48 + d) else char_of (55 + d))"

definition quote_char :: "char \<Rightarrow> string" where
  "quote_char c =
     (if always_safe c then [c]
      else if c = CHR '' '' then ''+''
      else [CHR ''%'', hex_digit ((of_char c :: nat) div 16), hex_digit ((of_char c :: nat) mod 16)])"

definition quote_plus :: "string option \<Rightarrow> py_exception + string" where
  "quote_plus s = (case s of None \<Rightarrow> Inl TypeError | Some cs \<Rightarrow> Inr (concat (map quote_char cs)))"

section \<open>Settings\<close>

text \<open>
  The attributes of \<open>redash.settings\<close> that the modelled functions read. The settings
  module itself is not part of this file of the repository; its values are inputs.
\<close>

record settings =
  REDIS_URL :: string
  REMOTE_JWT_LOGIN_ENABLED :: bool
  REMOTE_JWT_REFRESH_PROVIDER :: string
  REMOTE_JWT_EXPIRED_ENDPOINT :: string
  STATIC_ASSETS_PATH :: string
  ROOT_UI_URL :: string
  PROXIES_COUNT :: int
  ENFORCE_HTTPS :: bool
  SENTRY_DSN :: "string option"
  SQLALCHEMY_DATABASE_URI :: string
  all_settings :: "(string \<times> jval) list"

section \<open>create_redis_connection\<close>

text \<open>
  The attributes of the result of \<open>urlparse.urlparse\<close> that the function reads.
  \<open>hostname\<close>, \<open>port\<close> and \<open>password\<close> are \<open>None\<close> when the URL has none.
\<close>

record parse_result =
  scheme :: string
  path :: string
  query :: string
  hostname :: "string option"
  port :: "int option"
  password :: "string option"

text \<open>
  The client object: the keyword arguments \<open>redis.StrictRedis\<close> was called with.
  The constructor opens no connection. \<open>db\<close> is the integer 0 or a string.
\<close>

datatype strict_redis =
    StrictRedis_unix_socket string jval
  | StrictRedis_host "string option" "int option" jval "string option"

text \<open>
  \<open>urlparse.urlparse\<close> and \<open>urlparse.parse_qs\<close> are parameters. \<open>parse_qs\<close> maps
  a name to the list of its values, which is never empty: it is given as the first value
  and the rest. \<open>logging.debug\<close> has no part in the result. Lines 43 to 64.
\<close>

definition create_redis_connection ::
  "(string \<Rightarrow> parse_result) \<Rightarrow> (string \<Rightarrow> (string \<rightharpoonup> string \<times> string list)) \<Rightarrow> settings
     \<Rightarrow> py_exception + strict_redis" where
  "create_redis_connection urlparse parse_qs s =
     (let redis_url = urlparse (REDIS_URL s) in
      if scheme redis_url = ''redis+socket'' then
        (let qs = parse_qs (query redis_url);
             db = (case qs ''virtual_host'' of Some (v, vs) \<Rightarrow> JStr v | None \<Rightarrow> JInt 0)
         in Inr (StrictRedis_unix_socket (path redis_url) db))
      else
        (case (if path redis_url \<noteq> [] then
                 (if 1 < length (path redis_url) then Inr (JStr [path redis_url ! 1])
                  else Inl IndexError)
               else Inr (JInt 0)) of
           Inl e \<Rightarrow> Inl e
         | Inr redis_db \<Rightarrow>
             (let redis_password =
                    (case password redis_url of
                       None \<Rightarrow> None
                     | Some p \<Rightarrow> if p = [] then Some p else Some (unquote p))
              in Inr (StrictRedis_host (hostname redis_url) (port redis_url) redis_db redis_password))))"

section \<open>The response hook of JwtFlask\<close>

text \<open>
  The request as the hook reads it: \<open>request.cookies\<close> and \<open>request.referrer\<close>,
  which is \<open>None\<close> when the request has no \<open>Referer\<close> header.
\<close>

record request =
  cookies :: "string \<rightharpoonup> string"
  referrer :: "string option"

text \<open>
  A response object: the calls of \<open>set_cookie\<close> that succeeded on it, in order, and the
  rest of it, which the hook neither reads nor writes.
\<close>

record cookie =
  key :: string
  cookie_value :: string
  secure :: bool
  httponly :: bool

record response =
  content :: string
  set_cookie_calls :: "cookie list"

text \<open>
  \<open>response.set_cookie(key, value, secure=..., httponly=...)\<close>: Werkzeug encodes the
  value as a string and raises \<open>TypeError\<close> for a value that is not a string.
\<close>

definition set_cookie ::
  "response \<Rightarrow> string \<Rightarrow> jval \<Rightarrow> bool \<Rightarrow> bool \<Rightarrow> py_exception + response" where
  "set_cookie r k v sec ho =
     (case v of
        JStr x \<Rightarrow>
          Inr (r\<lparr>set_cookie_calls :=
                   set_cookie_calls r @
                     [\<lparr>key = k, cookie_value = x, secure = sec, httponly = ho\<rparr>]\<rparr>)
      | JInt i \<Rightarrow> Inl TypeError
      | JFloat x \<Rightarrow> Inl TypeError
      | JNull \<Rightarrow> Inl TypeError)"

text \<open>The call \<open>requests.post(url, headers=..., data=...)\<close>.\<close>

record http_post =
  url :: string
  headers :: "(string \<times> string) list"
  form_data :: "(string \<times> jval) list"

text \<open>
  The object \<open>requests.post\<close> returns, as the hook reads it: \<open>status_code\<close> and the
  attribute \<open>data\<close>, a dictionary. \<open>data = None\<close> stands for an object that has no
  attribute of that name, where reading it raises \<open>AttributeError\<close>.
\<close>

record post_reply =
  status_code :: int
  data :: "(string \<rightharpoonup> jval) option"

type_synonym claims = "string \<rightharpoonup> jval"

text \<open>
  What the hook calls and does not define: \<open>get_jwt_public_key\<close> of
  \<open>redash.authentication\<close>, the two decoding functions of \<open>jose.jwt\<close>,
  \<open>time.time\<close> (the value it returns in this invocation), \<open>requests.post\<close>,
  \<open>flask.redirect\<close>, and \<open>Flask.process_response\<close>, the method of the superclass.
  Each call that may raise returns a sum.
\<close>

record hook_env =
  get_jwt_public_key :: "py_exception + string"
  get_unverified_claims :: "string \<Rightarrow> py_exception + claims"
  decode :: "string \<Rightarrow> string \<Rightarrow> py_exception + claims"
  time_time :: rat
  requests_post :: "http_post \<Rightarrow> py_exception + post_reply"
  redirect :: "string \<Rightarrow> response"
  super_process_response :: "response \<Rightarrow> py_exception + response"

text \<open>\<open>d.get(k, None)\<close>: \<open>None\<close> for a missing key.\<close>

definition dict_get :: "(string \<rightharpoonup> jval) \<Rightarrow> string \<Rightarrow> jval" where
  "dict_get d k = (case d k of None \<Rightarrow> JNull | Some v \<Rightarrow> v)"

text \<open>
  \<open>iat + 1200\<close>: the sum of a number and an integer, as the number the comparison
  with \<open>now\<close> then reads; adding an integer to a string or to \<open>None\<close> raises
  \<open>TypeError\<close>.
\<close>

definition py_add :: "jval \<Rightarrow> int \<Rightarrow> py_exception + rat" where
  "py_add v n =
     (case v of
        JInt i \<Rightarrow> Inr (of_int (i + n))
      | JFloat x \<Rightarrow> Inr (x + of_int n)
      | JStr _ \<Rightarrow> Inl TypeError
      | JNull \<Rightarrow> Inl TypeError)"

definition is_number :: "jval \<Rightarrow> bool" where
  "is_number v = (case v of JInt i \<Rightarrow> True | JFloat x \<Rightarrow> True | JStr x \<Rightarrow> False | JNull \<Rightarrow> False)"

text \<open>
  \<open>now <= exp\<close> and \<open>now > exp\<close> for the float \<open>now\<close>. Python 2 orders values of
  different types without raising: \<open>None\<close> is below everything, and a number is below
  every value that is neither a number nor \<open>None\<close>.
\<close>

definition now_le :: "rat \<Rightarrow> jval \<Rightarrow> bool" where
  "now_le now v =
     (case v of JInt e \<Rightarrow> now \<le> of_int e | JFloat x \<Rightarrow> now \<le> x | JStr _ \<Rightarrow> True
      | JNull \<Rightarrow> False)"

definition now_gt :: "rat \<Rightarrow> jval \<Rightarrow> bool" where
  "now_gt now v =
     (case v of JInt e \<Rightarrow> of_int e < now | JFloat x \<Rightarrow> x < now | JStr _ \<Rightarrow> False
      | JNull \<Rightarrow> True)"

text \<open>
  The clause \<open>except (jwt.ExpiredSignatureError, jwt.JWTClaimsError, jwt.JWTError)\<close>:
  the classes it catches.
\<close>

definition is_caught :: "py_exception \<Rightarrow> bool" where
  "is_caught e =
     (case e of ExpiredSignatureError _ \<Rightarrow> True | JWTClaimsError _ \<Rightarrow> True | JWTError _ \<Rightarrow> True
      | _ \<Rightarrow> False)"

text \<open>
  Lines 124 to 127, after \<open>requests.post\<close> has returned \<open>resp\<close>: the response with
  the cookie set, the response as it was, or the exception raised.
\<close>

definition handle_reply :: "post_reply \<Rightarrow> response \<Rightarrow> py_exception + response" where
  "handle_reply resp response =
     (case (if status_code resp < 300 then
              (case data resp of
                 None \<Rightarrow> Inl AttributeError
               | Some d \<Rightarrow> Inr (dict_get d ''jwt'' \<noteq> JNull, dict_get d ''jwt''))
            else Inr (False, JNull)) of
        Inl e \<Rightarrow> Inl e
      | Inr (True, v) \<Rightarrow> set_cookie response ''jwt'' v True True
      | Inr (False, v) \<Rightarrow>
          if status_code resp = 401 then
            Inl (JWTError
              ''The authentication refresh service has denied a refresh, a login is likely in order.'')
          else Inr response)"

text \<open>
  The body of the \<open>try\<close> statement, lines 115 to 129, for the cookie \<open>jwttoken\<close>:
  its outcome (the response as the body leaves it, or the exception it raises) and the
  POST requests it issued, in order. \<open>public_key is ''\<close> holds for the empty byte
  string, of which the interpreter has one.
\<close>

definition try_body ::
  "hook_env \<Rightarrow> settings \<Rightarrow> string \<Rightarrow> response \<Rightarrow> (py_exception + response) \<times> http_post list" where
  "try_body env s jwttoken response =
     (case get_jwt_public_key env of
        Inl e \<Rightarrow> (Inl e, [])
      | Inr public_key \<Rightarrow>
     (case (if public_key = [] then get_unverified_claims env jwttoken
            else decode env jwttoken public_key) of
        Inl e \<Rightarrow> (Inl e, [])
      | Inr jwt_decoded \<Rightarrow>
     (case jwt_decoded ''iat'' of
        None \<Rightarrow> (Inl (KeyError ''iat''), [])
      | Some iat \<Rightarrow>
     (case jwt_decoded ''exp'' of
        None \<Rightarrow> (Inl (KeyError ''exp''), [])
      | Some exp' \<Rightarrow>
     (let now = time_time env in
      case py_add iat 1200 of
        Inl e \<Rightarrow> (Inl e, [])
      | Inr t \<Rightarrow>
          if t < now \<and> now_le now exp' then
            (let email = dict_get jwt_decoded ''email'';
                 rq = \<lparr>url = REMOTE_JWT_REFRESH_PROVIDER s,
                       headers = [(''Authorization'', ''Bearer '' @ jwttoken)],
                       form_data = [(''email'', email)]\<rparr>
             in case requests_post env rq of
                  Inl e \<Rightarrow> (Inl e, [rq])
                | Inr resp \<Rightarrow> (handle_reply resp response, [rq]))
          else if now_gt now exp' then
            (Inl (JWTClaimsError ''The asserted expiration claim has passed.''), [])
          else (Inr response, []))))))"

text \<open>
  \<open>JwtFlask.process_response\<close>, lines 110 to 132: what the method returns or raises,
  and the POST requests issued during the call.
\<close>

definition process_response ::
  "hook_env \<Rightarrow> settings \<Rightarrow> request \<Rightarrow> response \<Rightarrow> (py_exception + response) \<times> http_post list" where
  "process_response env s req response =
     (case cookies req ''jwt'' of
        None \<Rightarrow> (super_process_response env response, [])
      | Some jwttoken \<Rightarrow>
          (case try_body env s jwttoken response of
             (Inl e, sent) \<Rightarrow>
               if is_caught e then
                 (case quote_plus (referrer req) of
                    Inl e' \<Rightarrow> (Inl e', sent)
                  | Inr q \<Rightarrow> (Inr (redirect env (REMOTE_JWT_EXPIRED_ENDPOINT s @ q)), sent))
               else (Inl e, sent)
           | (Inr response', sent) \<Rightarrow> (super_process_response env response', sent)))"

text \<open>
  The claims the hook works on, lines 115 and 116 alone: the public key fetched and the
  token decoded with it, or the exception either call raises.
\<close>

definition decoded :: "hook_env \<Rightarrow> string \<Rightarrow> py_exception + claims" where
  "decoded env jwttoken =
     (case get_jwt_public_key env of
        Inl e \<Rightarrow> Inl e
      | Inr public_key \<Rightarrow>
          if public_key = [] then get_unverified_claims env jwttoken
          else decode env jwttoken public_key)"

text \<open>
  The refresh condition on a request: it carries a \<open>jwt\<close> cookie, decoding succeeds,
  the claims hold an \<open>iat\<close> and an \<open>exp\<close>, and \<open>iat + 1200 < now <= exp\<close> holds as
  line 121 evaluates it (so \<open>iat\<close> is a number).
\<close>

definition refresh_due :: "hook_env \<Rightarrow> request \<Rightarrow> bool" where
  "refresh_due env req =
     (case cookies req ''jwt'' of
        None \<Rightarrow> False
      | Some jwttoken \<Rightarrow>
          (case decoded env jwttoken of
             Inl e \<Rightarrow> False
           | Inr d \<Rightarrow>
               (case (d ''iat'', d ''exp'') of
                  (Some iat, Some exp') \<Rightarrow>
                     (case py_add iat 1200 of
                        Inl e \<Rightarrow> False
                      | Inr t \<Rightarrow> t < time_time env \<and> now_le (time_time env) exp')
                | _ \<Rightarrow> False)))"

section \<open>create_app\<close>

datatype flask_class = JwtFlask | Flask

datatype wsgi_app = Flask_wsgi_app | ProxyFix wsgi_app int

text \<open>
  The application object: its class, the arguments of its constructor, and what
  \<open>create_app\<close> sets on it afterwards. \<open>config\<close> and \<open>converters\<close> hold the entries
  \<open>create_app\<close> writes; \<open>initialised\<close> lists, in order, the extensions and
  initialisers that were applied to the application.
\<close>

record flask_app =
  app_class :: flask_class
  import_name :: string
  template_folder :: string
  static_folder :: string
  static_url_path :: string
  wsgi :: wsgi_app
  converters :: "(string \<times> string) list"
  config :: "string \<rightharpoonup> jval"
  initialised :: "string list"

text \<open>The constructor call, the same in both branches but for the class (lines 134 to 142).\<close>

definition new_app :: "flask_class \<Rightarrow> settings \<Rightarrow> flask_app" where
  "new_app cls s =
     \<lparr>app_class = cls, import_name = ''redash'',
      template_folder = STATIC_ASSETS_PATH s,
      static_folder = STATIC_ASSETS_PATH s,
      static_url_path = ROOT_UI_URL s @ ''/static'',
      wsgi = Flask_wsgi_app, converters = [], config = Map.empty, initialised = []\<rparr>"

definition truthy :: "string option \<Rightarrow> bool" where
  "truthy v = (case v of None \<Rightarrow> False | Some x \<Rightarrow> x \<noteq> [])"

definition init :: "string \<Rightarrow> flask_app \<Rightarrow> flask_app" where
  "init name app = app\<lparr>initialised := initialised app @ [name]\<rparr>"

text \<open>
  \<open>create_app\<close>, lines 96 to 181: the application returned and \<open>os.environ\<close> as
  the call leaves it. The initialisers of the other modules are recorded by name.
\<close>

definition create_app ::
  "settings \<Rightarrow> bool \<Rightarrow> (string \<rightharpoonup> string) \<Rightarrow> flask_app \<times> (string \<rightharpoonup> string)" where
  "create_app s load_admin os_environ =
     (let environ = os_environ(''SCRIPT_NAME'' \<mapsto> ROOT_UI_URL s);
          app = (if REMOTE_JWT_LOGIN_ENABLED s then new_app JwtFlask s else new_app Flask s);
          app = app\<lparr>wsgi := ProxyFix (wsgi app) (PROXIES_COUNT s)\<rparr>;
          app = app\<lparr>converters := converters app @ [(''org_slug'', ''SlugConverter'')]\<rparr>;
          app = app\<lparr>config := (config app)(''APPLICATION_ROOT'' \<mapsto> JStr (ROOT_UI_URL s))\<rparr>;
          app = app\<lparr>config := (config app)(''TEMPLATES_AUTO_RELOAD'' \<mapsto> JInt 1)\<rparr>;
          app = (if ENFORCE_HTTPS s then init ''SSLify'' app else app);
          app = (if truthy (SENTRY_DSN s) then init ''Sentry'' app else app);
          app = app\<lparr>config :=
                  (config app)(''SQLALCHEMY_DATABASE_URI'' \<mapsto> JStr (SQLALCHEMY_DATABASE_URI s))\<rparr>;
          app = app\<lparr>config := config app ++ map_of (all_settings s)\<rparr>;
          app = init ''provision_app'' app;
          app = init ''db'' app;
          app = init ''migrate'' app;
          app = (if load_admin then init ''init_admin'' app else app);
          app = init ''mail'' app;
          app = init ''setup_authentication'' app;
          app = init ''limiter'' app;
          app = init ''handlers'' app;
          app = init ''configure_webpack'' app;
          app = init ''extensions'' app
      in (app, environ))"

text \<open>
  Method resolution on the application returned: an instance of \<open>JwtFlask\<close> runs the
  hook above, an instance of \<open>Flask\<close> runs \<open>Flask.process_response\<close> itself.
\<close>

definition app_process_response ::
  "flask_app \<Rightarrow> hook_env \<Rightarrow> settings \<Rightarrow> request \<Rightarrow> response
     \<Rightarrow> (py_exception + response) \<times> http_post list" where
  "app_process_response app env s req response =
     (case app_class app of
        JwtFlask \<Rightarrow> process_response env s req response
      | Flask \<Rightarrow> (super_process_response env response, []))"

section \<open>Inputs for evaluation\<close>

definition example_settings :: settings where
  "example_settings =
     \<lparr>REDIS_URL = ''redis://localhost:6379/12'',
      REMOTE_JWT_LOGIN_ENABLED = True,
      REMOTE_JWT_REFRESH_PROVIDER = ''https://idp.example/refresh'',
      REMOTE_JWT_EXPIRED_ENDPOINT = ''https://idp.example/login?next='',
      STATIC_ASSETS_PATH = ''../client/dist/'',
      ROOT_UI_URL = ''/redash'',
      PROXIES_COUNT = 1,
      ENFORCE_HTTPS = False,
      SENTRY_DSN = None,
      SQLALCHEMY_DATABASE_URI = ''postgresql://postgres'',
      all_settings = []\<rparr>"

text \<open>A parsed URL of scheme \<open>redis\<close> on \<open>localhost:6379\<close> with the given path.\<close>

definition redis_host_url :: "string \<Rightarrow> string \<Rightarrow> parse_result" where
  "redis_host_url p u =
     \<lparr>scheme = ''redis'', path = p, query = [], hostname = Some ''localhost'',
      port = Some 6379, password = None\<rparr>"

definition no_query :: "string \<Rightarrow> (string \<rightharpoonup> string \<times> string list)" where
  "no_query q = Map.empty"

text \<open>
  An environment with an empty public key, in which decoding returns \<open>dec\<close>, the clock
  reads \<open>now\<close>, the refresh provider answers \<open>reply\<close>, the superclass returns the
  response it is given, and a redirect is a response holding its location.
\<close>

definition example_env :: "(py_exception + claims) \<Rightarrow> rat \<Rightarrow> (py_exception + post_reply) \<Rightarrow> hook_env" where
  "example_env dec now reply =
     \<lparr>get_jwt_public_key = Inr [],
      get_unverified_claims = (\<lambda>t. dec),
      decode = (\<lambda>t k. dec),
      time_time = now,
      requests_post = (\<lambda>rq. reply),
      redirect = (\<lambda>loc. \<lparr>content = loc, set_cookie_calls = []\<rparr>),
      super_process_response = (\<lambda>r. Inr r)\<rparr>"

definition example_request :: "string option \<Rightarrow> string option \<Rightarrow> request" where
  "example_request tok ref =
     \<lparr>cookies = (case tok of None \<Rightarrow> Map.empty | Some t \<Rightarrow> [''jwt'' \<mapsto> t]), referrer = ref\<rparr>"

definition example_response :: response where
  "example_response = \<lparr>content = ''<html>'', set_cookie_calls = []\<rparr>"

section \<open>Properties of create_redis_connection\<close>

lemma password_unquoted:
  "(case pw of None \<Rightarrow> None | Some p \<Rightarrow> if p = [] then Some p else Some (unquote p)) =
     map_option unquote pw"
  by (cases pw) auto

lemma redis_socket_connection:
  "scheme (urlparse (REDIS_URL s)) = ''redis+socket'' \<Longrightarrow>
   create_redis_connection urlparse parse_qs s =
     Inr (StrictRedis_unix_socket (path (urlparse (REDIS_URL s)))
           (case parse_qs (query (urlparse (REDIS_URL s))) ''virtual_host'' of
              Some (v, vs) \<Rightarrow> JStr v | None \<Rightarrow> JInt 0))"
  by (simp add: create_redis_connection_def Let_def)

lemma redis_host_connection_empty_path:
  "scheme (urlparse (REDIS_URL s)) \<noteq> ''redis+socket'' \<Longrightarrow>
   path (urlparse (REDIS_URL s)) = [] \<Longrightarrow>
   create_redis_connection urlparse parse_qs s =
     Inr (StrictRedis_host (hostname (urlparse (REDIS_URL s))) (port (urlparse (REDIS_URL s)))
            (JInt 0) (map_option unquote (password (urlparse (REDIS_URL s)))))"
  by (simp add: create_redis_connection_def Let_def password_unquoted)

text \<open>
  C5. The claim: for a scheme other than \<open>redis+socket\<close> the function connects to the
  URL's host and port, with the database taken from the path. At the URL
  \<open>redis://localhost:6379/\<close>, whose path is \<open>/\<close>, the function returns no client: the
  expression \<open>redis_url.path[1]\<close> raises \<open>IndexError\<close>. (The socket branch and the
  branch of the empty path do what the claim says: \<open>redis_socket_connection\<close>,
  \<open>redis_host_connection_empty_path\<close>.)
\<close>

theorem redis_url_with_root_path_raises:
  "create_redis_connection (redis_host_url ''/'') no_query
     (example_settings\<lparr>REDIS_URL := ''redis://localhost:6379/''\<rparr>) = Inl IndexError"
  by (simp add: create_redis_connection_def redis_host_url_def)

text \<open>
  C9. For a URL whose scheme is not \<open>redis+socket\<close> and whose path is not empty, the
  database is the one character at index 1 of the path, whatever follows it, and a path
  of one character makes the function raise \<open>IndexError\<close>.
\<close>

theorem redis_db_is_second_path_character:
  assumes "scheme (urlparse (REDIS_URL s)) \<noteq> ''redis+socket''"
    and "path (urlparse (REDIS_URL s)) \<noteq> []"
  shows "create_redis_connection urlparse parse_qs s =
     (let u = urlparse (REDIS_URL s) in
      if 1 < length (path u) then
        Inr (StrictRedis_host (hostname u) (port u) (JStr [path u ! 1])
               (map_option unquote (password u)))
      else Inl IndexError)"
  using assms by (simp add: create_redis_connection_def Let_def password_unquoted)

theorem redis_db_is_second_path_character_witness:
  "scheme (redis_host_url ''/12'' (REDIS_URL example_settings)) \<noteq> ''redis+socket''
   \<and> path (redis_host_url ''/12'' (REDIS_URL example_settings)) \<noteq> []
   \<and> create_redis_connection (redis_host_url ''/12'') no_query example_settings =
       Inr (StrictRedis_host (Some ''localhost'') (Some 6379) (JStr ''1'') None)
   \<and> scheme (redis_host_url ''/'' (REDIS_URL example_settings)) \<noteq> ''redis+socket''
   \<and> path (redis_host_url ''/'' (REDIS_URL example_settings)) \<noteq> []
   \<and> create_redis_connection (redis_host_url ''/'') no_query example_settings = Inl IndexError"
  using redis_db_is_second_path_character [of "redis_host_url ''/12''" example_settings no_query]
    redis_db_is_second_path_character [of "redis_host_url ''/''" example_settings no_query]
  by (simp add: redis_host_url_def)

section \<open>Properties of the response hook\<close>


lemma try_body_decoded:
  assumes "decoded env tok = Inr d"
  shows "try_body env s tok response =
     (case d ''iat'' of
        None \<Rightarrow> (Inl (KeyError ''iat''), [])
      | Some iat \<Rightarrow>
     (case d ''exp'' of
        None \<Rightarrow> (Inl (KeyError ''exp''), [])
      | Some exp' \<Rightarrow>
     (case py_add iat 1200 of
        Inl e \<Rightarrow> (Inl e, [])
      | Inr t \<Rightarrow>
          if t < time_time env \<and> now_le (time_time env) exp' then
            (let rq = \<lparr>url = REMOTE_JWT_REFRESH_PROVIDER s,
                       headers = [(''Authorization'', ''Bearer '' @ tok)],
                       form_data = [(''email'', dict_get d ''email'')]\<rparr>
             in case requests_post env rq of
                  Inl e \<Rightarrow> (Inl e, [rq])
                | Inr resp \<Rightarrow> (handle_reply resp response, [rq]))
          else if now_gt (time_time env) exp' then
            (Inl (JWTClaimsError ''The asserted expiration claim has passed.''), [])
          else (Inr response, []))))"
proof (cases "get_jwt_public_key env")
  case (Inl e')
  with assms show ?thesis by (simp add: decoded_def)
next
  case (Inr pk)
  with assms have "(if pk = [] then get_unverified_claims env tok else decode env tok pk) = Inr d"
    by (simp add: decoded_def)
  with Inr show ?thesis unfolding try_body_def Let_def by simp
qed

lemma sent_of_process_response:
  "snd (process_response env s req response) =
     (case cookies req ''jwt'' of None \<Rightarrow> [] | Some tok \<Rightarrow> snd (try_body env s tok response))"
proof (cases "cookies req ''jwt''")
  case None
  then show ?thesis by (simp add: process_response_def)
next
  case (Some tok)
  obtain r sent where tb: "try_body env s tok response = (r, sent)"
    by (cases "try_body env s tok response")
  show ?thesis
  proof (cases r)
    case (Inl e)
    with Some tb show ?thesis
      by (cases "quote_plus (referrer req)") (simp_all add: process_response_def)
  next
    case (Inr r')
    with Some tb show ?thesis by (simp add: process_response_def)
  qed
qed

lemma try_body_refresh:
  assumes "decoded env tok = Inr d"
    and "d ''iat'' = Some iat"
    and "py_add iat 1200 = Inr t"
    and "d ''exp'' = Some exp'"
    and "t < time_time env"
    and "now_le (time_time env) exp'"
  shows "try_body env s tok response =
     (case requests_post env \<lparr>url = REMOTE_JWT_REFRESH_PROVIDER s,
                 headers = [(''Authorization'', ''Bearer '' @ tok)],
                 form_data = [(''email'', dict_get d ''email'')]\<rparr> of
        Inl e \<Rightarrow> Inl e | Inr resp \<Rightarrow> handle_reply resp response,
      [\<lparr>url = REMOTE_JWT_REFRESH_PROVIDER s,
                 headers = [(''Authorization'', ''Bearer '' @ tok)],
                 form_data = [(''email'', dict_get d ''email'')]\<rparr>])"
  using assms(2-6)
  by (cases "requests_post env \<lparr>url = REMOTE_JWT_REFRESH_PROVIDER s,
                 headers = [(''Authorization'', ''Bearer '' @ tok)],
                 form_data = [(''email'', dict_get d ''email'')]\<rparr>")
     (simp_all add: try_body_decoded [OF assms(1)] Let_def)





lemma now_gt_not_le: "now_gt now v \<Longrightarrow> \<not> now_le now v"
  by (cases v) (simp_all add: now_gt_def now_le_def)

lemma refresh_posts_token:
  assumes "cookies req ''jwt'' = Some tok"
    and "decoded env tok = Inr d"
    and "d ''iat'' = Some iat"
    and "py_add iat 1200 = Inr t"
    and "d ''exp'' = Some exp'"
    and "t < time_time env"
    and "now_le (time_time env) exp'"
  shows "snd (process_response env s req response) =
           [\<lparr>url = REMOTE_JWT_REFRESH_PROVIDER s,
             headers = [(''Authorization'', ''Bearer '' @ tok)],
             form_data = [(''email'', dict_get d ''email'')]\<rparr>]"
  using assms(1) try_body_refresh [OF assms(2-7), of s response]
  by (simp add: sent_of_process_response)

lemma handle_reply_sets_cookie:
  assumes "status_code resp < 300" and "data resp = Some m" and "m ''jwt'' = Some (JStr x)"
  shows "handle_reply resp response =
           Inr (response\<lparr>set_cookie_calls := set_cookie_calls response @
                  [\<lparr>key = ''jwt'', cookie_value = x, secure = True, httponly = True\<rparr>]\<rparr>)"
  using assms by (simp add: handle_reply_def dict_get_def set_cookie_def)

lemma reply_without_data_raises:
  assumes "status_code resp < 300" and "data resp = None"
  shows "handle_reply resp response = Inl AttributeError \<and> \<not> is_caught AttributeError"
  using assms by (simp add: handle_reply_def is_caught_def)

lemma caught_exception_redirects:
  assumes "cookies req ''jwt'' = Some tok"
    and "try_body env s tok response = (Inl e, sent)"
    and "is_caught e"
    and "referrer req = Some r"
  shows "process_response env s req response =
           (Inr (redirect env (REMOTE_JWT_EXPIRED_ENDPOINT s @ concat (map quote_char r))), sent)"
  using assms by (simp add: process_response_def quote_plus_def)

text \<open>
  The result of the hook varies with the referrer of the request, which is part of the
  redirect, and with the response passed in.
\<close>

lemma result_varies_with_referrer_and_response:
  "process_response (example_env (Inl (JWTError ''Not enough segments'')) 0 (Inl (OtherException ''unused'')))
        example_settings (example_request (Some ''t'') (Some ''a'')) example_response
     \<noteq> process_response (example_env (Inl (JWTError ''Not enough segments'')) 0 (Inl (OtherException ''unused'')))
        example_settings (example_request (Some ''t'') (Some ''b'')) example_response
   \<and> process_response (example_env (Inl (JWTError ''Not enough segments'')) 0 (Inl (OtherException ''unused'')))
        example_settings (example_request None None) example_response
     \<noteq> process_response (example_env (Inl (JWTError ''Not enough segments'')) 0 (Inl (OtherException ''unused'')))
        example_settings (example_request None None) (example_response\<lparr>content := ''<p>''\<rparr>)"
  by (simp add: process_response_def try_body_def example_env_def example_request_def
        is_caught_def quote_plus_def quote_char_def always_safe_def example_response_def)

text \<open>
  C10. A request without a \<open>jwt\<close> cookie: the hook returns what the superclass's
  \<open>process_response\<close> returns on the response as it was passed in, and issues no
  request; no cookie is set and no redirect is built.
\<close>

theorem no_jwt_cookie_only_superclass:
  "cookies req ''jwt'' = None \<Longrightarrow>
   process_response env s req response = (super_process_response env response, [])"
  by (simp add: process_response_def)

theorem no_jwt_cookie_only_superclass_witness:
  "cookies (example_request None None) ''jwt'' = None \<and>
   process_response (example_env (Inl (JWTError ''x'')) 0 (Inl (OtherException ''x'')))
      example_settings (example_request None None) example_response
     = (Inr example_response, [])"
  using no_jwt_cookie_only_superclass [of "example_request None None"
     "example_env (Inl (JWTError ''x'')) 0 (Inl (OtherException ''x''))"
     example_settings example_response]
  by (simp add: example_request_def example_env_def)



text \<open>
  C8. Decoding succeeded and the claims lack \<open>iat\<close> or \<open>exp\<close>: the hook raises
  \<open>KeyError\<close>, which the \<open>except\<close> clause does not catch, so it returns neither the
  redirect nor the normal response.
\<close>

theorem missing_iat_or_exp_raises_KeyError:
  assumes "cookies req ''jwt'' = Some tok"
    and "decoded env tok = Inr d"
    and "d ''iat'' = None \<or> d ''exp'' = None"
  shows "process_response env s req response =
           (Inl (KeyError (if d ''iat'' = None then ''iat'' else ''exp'')), [])
         \<and> \<not> is_caught (KeyError (if d ''iat'' = None then ''iat'' else ''exp''))"
proof -
  have tb: "try_body env s tok response =
      (Inl (KeyError (if d ''iat'' = None then ''iat'' else ''exp'')), [])"
    using assms(3) by (cases "d ''iat''") (auto simp: try_body_decoded [OF assms(2)])
  have nc: "\<not> is_caught (KeyError (if d ''iat'' = None then ''iat'' else ''exp''))"
    by (simp add: is_caught_def)
  from assms(1) tb nc show ?thesis by (simp add: process_response_def)
qed

theorem missing_iat_or_exp_raises_KeyError_witness:
  "cookies (example_request (Some ''t'') (Some ''http://redash/'')) ''jwt'' = Some ''t''
   \<and> decoded (example_env (Inr [''iat'' \<mapsto> JInt 0]) 50 (Inl (OtherException ''unused''))) ''t''
        = Inr [''iat'' \<mapsto> JInt 0]
   \<and> [''iat'' \<mapsto> JInt 0] ''exp'' = None
   \<and> process_response (example_env (Inr [''iat'' \<mapsto> JInt 0]) 50 (Inl (OtherException ''unused'')))
        example_settings (example_request (Some ''t'') (Some ''http://redash/'')) example_response
       = (Inl (KeyError ''exp''), [])"
proof -
  let ?env = "example_env (Inr [''iat'' \<mapsto> JInt 0]) 50 (Inl (OtherException ''unused''))"
  let ?req = "example_request (Some ''t'') (Some ''http://redash/'')"
  have c: "cookies ?req ''jwt'' = Some ''t''" by (simp add: example_request_def)
  have d: "decoded ?env ''t'' = Inr [''iat'' \<mapsto> JInt 0]"
    by (simp add: decoded_def example_env_def)
  have m: "[''iat'' \<mapsto> JInt 0] ''iat'' = None \<or> [''iat'' \<mapsto> JInt 0] ''exp'' = None" by simp
  from missing_iat_or_exp_raises_KeyError [OF c d m, of example_settings example_response] c d
  show ?thesis by simp
qed

text \<open>
  C2. The claim: when the refresh is due, the hook POSTs the token to the refresh provider
  and, if the status code is below 300 and the reply holds a \<open>jwt\<close> value, sets it as the
  cookie. The POST is issued as claimed (\<open>refresh_posts_token\<close>), but the object that
  \<open>requests.post\<close> returns has no attribute \<open>data\<close>: on a reply with status 200 the test
  of line 124 raises \<open>AttributeError\<close>, which the \<open>except\<close> clause does not catch. No
  cookie is set and the hook returns no response. The request has a referrer here.
\<close>

theorem refresh_reply_without_data_raises_AttributeError:
  "refresh_due (example_env (Inr [''iat'' \<mapsto> JInt 0, ''exp'' \<mapsto> JInt 5000]) 2000
          (Inr \<lparr>status_code = 200, data = None\<rparr>))
        (example_request (Some ''t'') (Some ''http://redash/''))
   \<and> process_response (example_env (Inr [''iat'' \<mapsto> JInt 0, ''exp'' \<mapsto> JInt 5000]) 2000
          (Inr \<lparr>status_code = 200, data = None\<rparr>))
        example_settings (example_request (Some ''t'') (Some ''http://redash/'')) example_response
       = (Inl AttributeError,
          [\<lparr>url = ''https://idp.example/refresh'',
            headers = [(''Authorization'', ''Bearer t'')],
            form_data = [(''email'', JNull)]\<rparr>])
   \<and> \<not> is_caught AttributeError"
  by (simp add: refresh_due_def decoded_def process_response_def try_body_def handle_reply_def
        example_env_def example_request_def example_settings_def py_add_def now_le_def
        dict_get_def is_caught_def)

text \<open>
  C1. The claim: whenever handling the cookie raises a JWT exception, the hook returns the
  redirect to \<open>REMOTE_JWT_EXPIRED_ENDPOINT\<close> followed by the URL-quoted referrer. On a
  request without a \<open>Referer\<close> header the handler itself raises: decoding fails with
  \<open>JWTError\<close>, the clause catches it, and \<open>urllib.quote_plus(None)\<close> raises
  \<open>TypeError\<close>, which leaves the hook. (With a referrer the redirect is returned:
  \<open>caught_exception_redirects\<close>.)
\<close>

theorem jwt_error_without_referrer_raises_TypeError:
  "try_body (example_env (Inl (JWTError ''Not enough segments'')) 0 (Inl (OtherException ''unused'')))
      example_settings ''expired'' example_response = (Inl (JWTError ''Not enough segments''), [])
   \<and> is_caught (JWTError ''Not enough segments'')
   \<and> process_response (example_env (Inl (JWTError ''Not enough segments'')) 0 (Inl (OtherException ''unused'')))
      example_settings (example_request (Some ''expired'') None) example_response
     = (Inl TypeError, [])"
  by (simp add: process_response_def try_body_def example_env_def example_request_def
        is_caught_def quote_plus_def)

text \<open>
  C4, as the code has it. A request with a \<open>jwt\<close> cookie and a referrer, whose decoded
  claims hold a number as \<open>iat\<close> and an \<open>exp\<close> with \<open>now > exp\<close>: the body of the
  \<open>try\<close> raises \<open>JWTClaimsError\<close> and the hook returns the redirect to the login
  endpoint, not the normal response.
\<close>

theorem expired_token_redirects:
  assumes "cookies req ''jwt'' = Some tok"
    and "decoded env tok = Inr d"
    and "d ''iat'' = Some iat"
    and "is_number iat"
    and "d ''exp'' = Some exp'"
    and "now_gt (time_time env) exp'"
    and "referrer req = Some r"
  shows "try_body env s tok response =
           (Inl (JWTClaimsError ''The asserted expiration claim has passed.''), [])
         \<and> process_response env s req response =
           (Inr (redirect env (REMOTE_JWT_EXPIRED_ENDPOINT s @ concat (map quote_char r))), [])"
proof -
  from assms(4) obtain t where t: "py_add iat 1200 = Inr t"
    by (cases iat) (simp_all add: is_number_def py_add_def)
  have tb: "try_body env s tok response =
           (Inl (JWTClaimsError ''The asserted expiration claim has passed.''), [])"
    using assms(3) assms(5) assms(6) t now_gt_not_le [OF assms(6)]
    by (simp add: try_body_decoded [OF assms(2)])
  have "is_caught (JWTClaimsError ''The asserted expiration claim has passed.'')"
    by (simp add: is_caught_def)
  with tb caught_exception_redirects [OF assms(1) tb _ assms(7)] show ?thesis by simp
qed

theorem expired_token_redirects_witness:
  "cookies (example_request (Some ''t'') (Some ''http://redash/a b'')) ''jwt'' = Some ''t''
   \<and> decoded (example_env (Inr [''iat'' \<mapsto> JFloat (3 / 2), ''exp'' \<mapsto> JFloat (9 / 2)]) 6000
          (Inl (OtherException ''unused''))) ''t''
        = Inr [''iat'' \<mapsto> JFloat (3 / 2), ''exp'' \<mapsto> JFloat (9 / 2)]
   \<and> is_number (JFloat (3 / 2))
   \<and> now_gt (time_time (example_env (Inr [''iat'' \<mapsto> JFloat (3 / 2), ''exp'' \<mapsto> JFloat (9 / 2)]) 6000
          (Inl (OtherException ''unused'')))) (JFloat (9 / 2))
   \<and> process_response (example_env (Inr [''iat'' \<mapsto> JFloat (3 / 2), ''exp'' \<mapsto> JFloat (9 / 2)]) 6000
          (Inl (OtherException ''unused'')))
        example_settings (example_request (Some ''t'') (Some ''http://redash/a b'')) example_response
       = (Inr \<lparr>content = ''https://idp.example/login?next=http%3A%2F%2Fredash%2Fa+b'',
               set_cookie_calls = []\<rparr>, [])"
proof -
  let ?d = "[''iat'' \<mapsto> JFloat (3 / 2), ''exp'' \<mapsto> JFloat (9 / 2)]"
  let ?env = "example_env (Inr ?d) 6000 (Inl (OtherException ''unused''))"
  let ?req = "example_request (Some ''t'') (Some ''http://redash/a b'')"
  have c: "cookies ?req ''jwt'' = Some ''t''" by (simp add: example_request_def)
  have d: "decoded ?env ''t'' = Inr ?d" by (simp add: decoded_def example_env_def)
  have i: "?d ''iat'' = Some (JFloat (3 / 2))" by simp
  have n: "is_number (JFloat (3 / 2))" by (simp add: is_number_def)
  have e: "?d ''exp'' = Some (JFloat (9 / 2))" by simp
  have gt: "now_gt (time_time ?env) (JFloat (9 / 2))" by (simp add: example_env_def now_gt_def)
  have r: "referrer ?req = Some ''http://redash/a b''" by (simp add: example_request_def)
  have q: "concat (map quote_char ''http://redash/a b'') = ''http%3A%2F%2Fredash%2Fa+b''"
    by code_simp
  from expired_token_redirects [OF c d i n e gt r, of example_settings example_response, unfolded q]
  have "process_response ?env example_settings ?req example_response =
          (Inr \<lparr>content = ''https://idp.example/login?next=http%3A%2F%2Fredash%2Fa+b'',
               set_cookie_calls = []\<rparr>, [])"
    by (simp add: example_env_def example_settings_def)
  with c d n gt show ?thesis by simp
qed

text \<open>
  C4 as stated fails: claims with \<open>exp = 100\<close> at \<open>now = 200\<close> and no \<open>iat\<close>. The
  hook reads \<open>iat\<close> before it compares anything, raises \<open>KeyError\<close>, and returns no
  redirect, although the request has a referrer.
\<close>

theorem expired_token_without_iat_raises_KeyError:
  "cookies (example_request (Some ''t'') (Some ''http://redash/''))  ''jwt'' = Some ''t''
   \<and> decoded (example_env (Inr [''exp'' \<mapsto> JInt 100]) 200 (Inl (OtherException ''unused''))) ''t''
        = Inr [''exp'' \<mapsto> JInt 100]
   \<and> now_gt (time_time (example_env (Inr [''exp'' \<mapsto> JInt 100]) 200 (Inl (OtherException ''unused''))))
        (JInt 100)
   \<and> process_response (example_env (Inr [''exp'' \<mapsto> JInt 100]) 200 (Inl (OtherException ''unused'')))
        example_settings (example_request (Some ''t'') (Some ''http://redash/'')) example_response
       = (Inl (KeyError ''iat''), [])"
  by (simp add: process_response_def try_body_def decoded_def example_env_def example_request_def
        is_caught_def now_gt_def)

section \<open>Properties of create_app\<close>

text \<open>
  C3. The application returned is an instance of \<open>JwtFlask\<close> exactly when
  \<open>REMOTE_JWT_LOGIN_ENABLED\<close> is true and an instance of \<open>Flask\<close> otherwise; in both
  cases its template folder and static folder are \<open>STATIC_ASSETS_PATH\<close> and its static
  URL path is \<open>ROOT_UI_URL\<close> followed by \<open>/static\<close>; and its \<open>process_response\<close>
  is the cookie-refresh hook exactly in the first case.
\<close>

theorem create_app_class_follows_setting:
  "(app_class (fst (create_app s load_admin os_environ)) = JwtFlask) = REMOTE_JWT_LOGIN_ENABLED s
   \<and> (app_class (fst (create_app s load_admin os_environ)) = Flask) = (\<not> REMOTE_JWT_LOGIN_ENABLED s)
   \<and> template_folder (fst (create_app s load_admin os_environ)) = STATIC_ASSETS_PATH s
   \<and> static_folder (fst (create_app s load_admin os_environ)) = STATIC_ASSETS_PATH s
   \<and> static_url_path (fst (create_app s load_admin os_environ)) = ROOT_UI_URL s @ ''/static''
   \<and> app_process_response (fst (create_app s load_admin os_environ)) env s req response =
       (if REMOTE_JWT_LOGIN_ENABLED s then process_response env s req response
        else (super_process_response env response, []))"
  by (simp add: create_app_def new_app_def init_def Let_def app_process_response_def)

theorem create_app_class_follows_setting_witness:
  "app_class (fst (create_app example_settings True Map.empty)) = JwtFlask
   \<and> app_class (fst (create_app (example_settings\<lparr>REMOTE_JWT_LOGIN_ENABLED := False\<rparr>) True
         Map.empty)) = Flask
   \<and> static_url_path (fst (create_app example_settings True Map.empty)) = ''/redash/static''
   \<and> static_url_path (fst (create_app (example_settings\<lparr>REMOTE_JWT_LOGIN_ENABLED := False\<rparr>)
         True Map.empty)) = ''/redash/static''"
  using create_app_class_follows_setting [of example_settings True Map.empty]
    create_app_class_follows_setting
      [of "example_settings\<lparr>REMOTE_JWT_LOGIN_ENABLED := False\<rparr>" True Map.empty]
  by (simp add: example_settings_def)

end
